theory Spec2Isabelle
  imports Main
begin

section \<open>The BBC LDRS feeding service (superdesk/io/feeding_services/bbc_ldrs.py)\<close>

text \<open>
  The service talks to an HTTP feed through \<^verbatim>\<open>requests.get\<close> and hands every page
  it read to a feed parser. Both collaborators are parameters of the model: the feed is
  a function from the request that is sent to the outcome of the call, the parser
  registry a function that may fail. Exceptions are values; a function that can raise
  returns a sum with the exception on the left.
\<close>

subsection \<open>Requests, responses and exceptions\<close>

text \<open>A query parameter of \<^verbatim>\<open>params\<close> is a Python \<^verbatim>\<open>str\<close> or \<^verbatim>\<open>int\<close>.\<close>

datatype param = S string | I int

text \<open>
  The arguments of one \<^verbatim>\<open>requests.get(url, params=..., headers=..., timeout=30)\<close>.
  The two dicts are association lists in insertion order.
\<close>

record request =
  url :: string
  params :: "(string \<times> param) list"
  headers :: "(string \<times> string) list"
  timeout :: int

text \<open>
  The attributes of a \<^verbatim>\<open>requests.Response\<close> that the service reads.
  (\<^verbatim>\<open>response.text\<close> is the field \<open>resp_text\<close>.)
\<close>

record response =
  ok :: bool
  status_code :: int
  reason :: string
  resp_text :: string

text \<open>
  Plain Python exception objects: \<^verbatim>\<open>Exception(msg)\<close>, the \<^verbatim>\<open>KeyError\<close> of a missing
  dict key, the \<^verbatim>\<open>AttributeError\<close> of an attribute read on \<^verbatim>\<open>None\<close>, the
  \<^verbatim>\<open>TypeError\<close> of a \<^verbatim>\<open>None\<close> where a text is needed, the
  \<^verbatim>\<open>requests.exceptions.ReadTimeout\<close> of the HTTP library (a \<^verbatim>\<open>Timeout\<close>, not a
  \<^verbatim>\<open>ConnectionError\<close>), and an exception object of some other class derived from
  \<^verbatim>\<open>Exception\<close> that a collaborator made, known by its rendering. \<^verbatim>\<open>SystemExit\<close> and
  \<^verbatim>\<open>KeyboardInterrupt\<close> derive from \<^verbatim>\<open>BaseException\<close> only.
\<close>

datatype exc =
    Exception string
  | KeyError string
  | AttributeError string
  | TypeError string
  | ReadTimeout string
  | External string
  | SystemExit string
  | KeyboardInterrupt

text \<open>What an \<^verbatim>\<open>except Exception\<close> clause catches.\<close>

fun is_Exception :: "exc \<Rightarrow> bool" where
  "is_Exception (SystemExit code) = False"
| "is_Exception KeyboardInterrupt = False"
| "is_Exception ex = True"

text \<open>
  What one call of \<^verbatim>\<open>requests.get\<close> does: it raises an exception of the class
  \<^verbatim>\<open>requests.exceptions.ConnectionError\<close> (a failed name lookup, a refused connection,
  a connect timeout), it raises an exception of another class (a read timeout, for
  one), or it returns a response.
\<close>

datatype outcome =
    Raises_ConnectionError exc
  | Raises exc
  | Returns response

text \<open>
  The provider dict. \<^verbatim>\<open>provider.get('config', {})\<close> and
  \<^verbatim>\<open>provider.get('last_updated', ...)\<close> read two optional keys. The config dict is
  an association list read with \<open>map_of\<close>; the datetime under \<^verbatim>\<open>last_updated\<close> is kept
  as the text that \<^verbatim>\<open>strftime('%Y-%m-%dT%H:%M:%S')\<close> renders for it.
\<close>

record provider =
  config :: "(string \<times> string) list option"
  last_updated :: "string option"

text \<open>\<^verbatim>\<open>provider.get('config', {})\<close>\<close>

definition config_of :: "provider \<Rightarrow> (string \<times> string) list" where
  "config_of provider = (case config provider of None \<Rightarrow> [] | Some c \<Rightarrow> c)"

text \<open>
  The errors of \<^verbatim>\<open>superdesk.errors\<close> that the service raises, with the arguments it
  passes: \<^verbatim>\<open>IngestApiError.apiXError(exception, provider)\<close> and
  \<^verbatim>\<open>ParserError.parseMessageError(exception, provider, data=item)\<close>. Any other exception
  leaves the service as it is (\<open>Uncaught\<close>).
\<close>

datatype api_error = apiConnectionError | apiAuthError | apiNotFoundError | apiGeneralError

datatype error =
    IngestApiError api_error exc "provider option"
  | ParserError_parseMessageError exc provider string
  | Uncaught exc

subsection \<open>The three regular expressions\<close>

definition startswith :: "string \<Rightarrow> string \<Rightarrow> bool" where
  "startswith p s = (take (length p) s = p)"

definition digit :: "char \<Rightarrow> bool" where
  "digit c = (c \<in> set ''0123456789'')"

definition total_key :: string where
  "total_key = CHR 0x22 # ''total'' @ [CHR 0x22] @ '':''"

text \<open>
  \<^verbatim>\<open>re.search('\"total\": *[0-9]*', text)\<close>: the leftmost place where the literal
  \<^verbatim>\<open>"total":\<close> starts; the two starred parts are greedy and may be empty, so the match
  is the literal, then every space that follows, then every digit that follows. The
  result is the matched text, or \<open>None\<close> when \<^verbatim>\<open>re.search\<close> returns \<^verbatim>\<open>None\<close>.
\<close>

fun re_search_total :: "string \<Rightarrow> string option" where
  "re_search_total [] = None"
| "re_search_total (c # cs) =
     (if startswith total_key (c # cs)
      then (let rest = drop (length total_key) (c # cs);
                spaces = takeWhile (\<lambda>x. x = CHR '' '') rest;
                digits = takeWhile digit (dropWhile (\<lambda>x. x = CHR '' '') rest)
            in Some (total_key @ spaces @ digits))
      else re_search_total cs)"

text \<open>\<^verbatim>\<open>re.search('[0-9]+', s)\<close>: the leftmost digit, with every digit that follows it.\<close>

fun re_search_digits :: "string \<Rightarrow> string option" where
  "re_search_digits [] = None"
| "re_search_digits (c # cs) =
     (if digit c then Some (takeWhile digit (c # cs)) else re_search_digits cs)"

text \<open>
  \<^verbatim>\<open>m.group()\<close> on the result of \<^verbatim>\<open>re.search\<close>: the matched text, and an
  \<^verbatim>\<open>AttributeError\<close> when \<^verbatim>\<open>m\<close> is \<^verbatim>\<open>None\<close>. The code tests the value that
  \<^verbatim>\<open>group()\<close> returned against \<^verbatim>\<open>None\<close>, so that value is a text or \<^verbatim>\<open>None\<close> here.
\<close>

definition group :: "string option \<Rightarrow> exc + string option" where
  "group m = (case m of
      None \<Rightarrow> Inl (AttributeError ''group'')
    | Some g \<Rightarrow> Inr (Some g))"

text \<open>
  \<^verbatim>\<open>re.match('Error: No API Key provided', text)\<close>: the pattern has no
  metacharacter and \<^verbatim>\<open>re.match\<close> matches at the start of the text only.
\<close>

definition no_api_key :: string where
  "no_api_key = ''Error: No API Key provided''"

definition re_match_no_api_key :: "string \<Rightarrow> bool" where
  "re_match_no_api_key s = startswith no_api_key s"

text \<open>\<^verbatim>\<open>int(s)\<close> for a text \<open>s\<close> of decimal digits.\<close>

definition digit_value :: "char \<Rightarrow> int" where
  "digit_value c = int (of_char c) - 48"

definition py_int :: "string \<Rightarrow> int" where
  "py_int s = foldl (\<lambda>n c. 10 * n + digit_value c) 0 s"

subsection \<open>The connectivity probe\<close>

definition probe_request :: "string \<Rightarrow> string \<Rightarrow> request" where
  "probe_request u api_key =
     \<lparr>url = u, params = [(''limit'', I 1), (''fields'', S ''id'')],
      headers = [(''apikey'', api_key)], timeout = 30\<rparr>"

text \<open>\<^verbatim>\<open>_test(self, provider)\<close>; \<open>Inr ()\<close> is the return without a value.\<close>

definition test :: "(request \<Rightarrow> outcome) \<Rightarrow> provider \<Rightarrow> error + unit" where
  "test get provider =
     (let cfg = config_of provider in
      case map_of cfg ''url'' of
        None \<Rightarrow> Inl (Uncaught (KeyError ''url''))
      | Some u \<Rightarrow>
      (case map_of cfg ''api_key'' of
        None \<Rightarrow> Inl (Uncaught (KeyError ''api_key''))
      | Some api_key \<Rightarrow>
      (case get (probe_request u api_key) of
        Raises_ConnectionError err \<Rightarrow> Inl (IngestApiError apiConnectionError err None)
      | Raises e \<Rightarrow> Inl (Uncaught e)
      | Returns response \<Rightarrow>
          if \<not> ok response then
            if status_code response = 404
            then Inl (IngestApiError apiNotFoundError (Exception (reason response)) (Some provider))
            else Inl (IngestApiError apiGeneralError (Exception (reason response)) (Some provider))
          else Inr ())))"

subsection \<open>The page walk\<close>

definition offset_jump :: int where
  "offset_jump = 10"

definition page_request :: "string \<Rightarrow> string \<Rightarrow> string \<Rightarrow> int \<Rightarrow> request" where
  "page_request u api_key last_update offset =
     \<lparr>url = u,
      params = [(''start'', S last_update), (''limit'', I offset_jump), (''offset'', I offset)],
      headers = [(''apikey'', api_key)], timeout = 30\<rparr>"

text \<open>
  Lines 118 and 119: \<^verbatim>\<open>results_str\<close>, the digits after \<^verbatim>\<open>"total":\<close> in the body of an ok
  response. (\<^verbatim>\<open>re.search\<close> on a \<^verbatim>\<open>None\<close> in place of a text is a \<^verbatim>\<open>TypeError\<close>.)
\<close>

definition results_str_of :: "string \<Rightarrow> exc + string option" where
  "results_str_of body =
     (case group (re_search_total body) of
        Inl e \<Rightarrow> Inl e
      | Inr None \<Rightarrow> Inl (TypeError ''expected string or bytes-like object'')
      | Inr (Some item_ident) \<Rightarrow> group (re_search_digits item_ident))"

text \<open>
  One turn of the \<^verbatim>\<open>while True\<close> loop (lines 109 to 143), after \<^verbatim>\<open>requests.get\<close> came
  back with \<open>out\<close>: the loop raises, returns the items, or goes on with a new offset and
  new items. The branch \<open>Inr None\<close> is the test \<^verbatim>\<open>results_str is None\<close> of line 121.
\<close>

datatype step = Raise error | Return "string list" | Continue int "string list"

definition fetch_page :: "outcome \<Rightarrow> provider \<Rightarrow> int \<Rightarrow> string list \<Rightarrow> step" where
  "fetch_page out provider offset items =
     (case out of
        Raises_ConnectionError err \<Rightarrow> Raise (IngestApiError apiConnectionError err None)
      | Raises e \<Rightarrow> Raise (Uncaught e)
      | Returns response \<Rightarrow>
          if ok response then
            (case results_str_of (resp_text response) of
               Inl e \<Rightarrow> Raise (Uncaught e)
             | Inr None \<Rightarrow>
                 Raise (IngestApiError apiGeneralError (Exception (resp_text response))
                          (Some provider))
             | Inr (Some results_str) \<Rightarrow>
                 (let num_results = py_int results_str;
                      items' = (if num_results > 0 then items @ [resp_text response] else items)
                  in if offset \<ge> num_results then Return items'
                     else Continue (offset + offset_jump) items'))
          else
            if re_match_no_api_key (resp_text response)
            then Raise (IngestApiError apiAuthError (Exception (resp_text response)) (Some provider))
            else if status_code response = 404
            then Raise (IngestApiError apiNotFoundError (Exception (reason response)) (Some provider))
            else Raise (IngestApiError apiGeneralError (Exception (reason response)) (Some provider)))"

text \<open>
  The loop. Nothing in the code bounds it, so it is a partial function: \<open>None\<close> is a walk
  that never ends. The result comes with the requests that were sent, oldest first.
\<close>

partial_function (option) fetch_loop ::
  "(request \<Rightarrow> outcome) \<Rightarrow> string \<Rightarrow> string \<Rightarrow> string \<Rightarrow> provider \<Rightarrow> int \<Rightarrow> string list
     \<Rightarrow> request list \<Rightarrow> ((error + string list) \<times> request list) option"
where
  "fetch_loop get u api_key last_update provider offset items sent =
     (let rq = page_request u api_key last_update offset in
      case fetch_page (get rq) provider offset items of
        Raise e \<Rightarrow> Some (Inl e, sent @ [rq])
      | Return items' \<Rightarrow> Some (Inr items', sent @ [rq])
      | Continue offset' items' \<Rightarrow>
          fetch_loop get u api_key last_update provider offset' items' (sent @ [rq]))"

text \<open>\<^verbatim>\<open>_fetch_data(self, config, provider)\<close>.\<close>

definition epoch :: string where
  "epoch = ''1970-01-01T00:00:00''"

text \<open>Line 95: the rendered \<^verbatim>\<open>last_updated\<close>, or the rendered \<^verbatim>\<open>utcfromtimestamp(0)\<close>.\<close>

definition last_update_of :: "provider \<Rightarrow> string" where
  "last_update_of provider = (case last_updated provider of None \<Rightarrow> epoch | Some t \<Rightarrow> t)"

definition fetch_data ::
  "(request \<Rightarrow> outcome) \<Rightarrow> (string \<times> string) list \<Rightarrow> provider
     \<Rightarrow> ((error + string list) \<times> request list) option" where
  "fetch_data get cfg provider =
     (case map_of cfg ''url'' of
        None \<Rightarrow> Some (Inl (Uncaught (KeyError ''url'')), [])
      | Some u \<Rightarrow>
      (case map_of cfg ''api_key'' of
        None \<Rightarrow> Some (Inl (Uncaught (KeyError ''api_key'')), [])
      | Some api_key \<Rightarrow>
          (let last_update = last_update_of provider
           in fetch_loop get u api_key last_update provider 0 [] [])))"

subsection \<open>The sync cycle\<close>

text \<open>
  The body of the \<^verbatim>\<open>try\<close> in \<^verbatim>\<open>_update\<close>: \<^verbatim>\<open>get_feed_parser(provider, item)\<close> finds a
  parser or raises, \<^verbatim>\<open>parser.parse(item)\<close> returns the parsed page or raises.
\<close>

definition parse_one ::
  "(provider \<Rightarrow> string \<Rightarrow> exc + (string \<Rightarrow> exc + 'n)) \<Rightarrow> provider \<Rightarrow> string \<Rightarrow> exc + 'n" where
  "parse_one get_feed_parser provider item =
     (case get_feed_parser provider item of
        Inl ex \<Rightarrow> Inl ex
      | Inr parser \<Rightarrow> parser item)"

text \<open>
  The \<^verbatim>\<open>for item in json_items\<close> loop. Its \<^verbatim>\<open>except Exception\<close> wraps what derives
  from \<^verbatim>\<open>Exception\<close>; anything else that the body raises leaves \<^verbatim>\<open>_update\<close> as it is.
\<close>

fun parse_items ::
  "(provider \<Rightarrow> string \<Rightarrow> exc + (string \<Rightarrow> exc + 'n)) \<Rightarrow> provider \<Rightarrow> string list \<Rightarrow> 'n list
     \<Rightarrow> error + 'n list" where
  "parse_items get_feed_parser provider [] parsed_items = Inr parsed_items"
| "parse_items get_feed_parser provider (item # json_items) parsed_items =
     (case parse_one get_feed_parser provider item of
        Inl ex \<Rightarrow>
          if is_Exception ex then Inl (ParserError_parseMessageError ex provider item)
          else Inl (Uncaught ex)
      | Inr parsed \<Rightarrow> parse_items get_feed_parser provider json_items (parsed_items @ [parsed]))"

text \<open>
  \<^verbatim>\<open>_update(self, provider, update)\<close>; the argument \<^verbatim>\<open>update\<close> is not read. The
  call of \<^verbatim>\<open>_fetch_data\<close> stands outside the \<^verbatim>\<open>try\<close>, so its errors pass through.
\<close>

definition update ::
  "(request \<Rightarrow> outcome) \<Rightarrow> (provider \<Rightarrow> string \<Rightarrow> exc + (string \<Rightarrow> exc + 'n)) \<Rightarrow> provider
     \<Rightarrow> ((error + 'n list) \<times> request list) option" where
  "update get get_feed_parser provider =
     (let cfg = config_of provider in
      case fetch_data get cfg provider of
        None \<Rightarrow> None
      | Some (Inl e, sent) \<Rightarrow> Some (Inl e, sent)
      | Some (Inr json_items, sent) \<Rightarrow>
          Some (parse_items get_feed_parser provider json_items [], sent))"

subsection \<open>The walk as the specification describes it\<close>

text \<open>
  The offsets of a walk over a feed whose pages all report the same total: the walk
  starts at an offset, stops there when the offset has reached the total, and
  otherwise goes on one page further.
\<close>

function walk_offsets :: "int \<Rightarrow> int \<Rightarrow> int list" where
  "walk_offsets num_results offset =
     (if offset \<ge> num_results then [offset]
      else offset # walk_offsets num_results (offset + offset_jump))"
  by pat_completeness auto
termination
  by (relation "measure (\<lambda>(num_results, offset). nat (num_results - offset))")
     (auto simp: offset_jump_def)

declare walk_offsets.simps [simp del]

text \<open>The body of the page that a call of the feed returned (empty when it raised).\<close>

definition page_body :: "outcome \<Rightarrow> string" where
  "page_body out = (case out of Returns r \<Rightarrow> resp_text r | _ \<Rightarrow> [])"

text \<open>
  The total that the code reads from a body (\<^verbatim>\<open>num_results\<close>, line 125), when it reads
  one; and a page that is ok and whose body reports the total \<open>T\<close>.
\<close>

definition num_results_of :: "string \<Rightarrow> int option" where
  "num_results_of body =
     (case results_str_of body of
        Inr (Some results_str) \<Rightarrow> Some (py_int results_str)
      | _ \<Rightarrow> None)"

definition reports :: "outcome \<Rightarrow> int \<Rightarrow> bool" where
  "reports out T =
     (case out of Returns r \<Rightarrow> ok r \<and> num_results_of (resp_text r) = Some T | _ \<Rightarrow> False)"

subsection \<open>A text inside another\<close>

text \<open>
  \<open>contains_text p s\<close>: the text \<open>p\<close> occurs somewhere in \<open>s\<close> (Python's \<^verbatim>\<open>p in s\<close>).
  The service never computes this; it is what "the body contains the marker" means,
  to be set against the test at the start of the body that \<^verbatim>\<open>re.match\<close> makes.
\<close>

fun contains_text :: "string \<Rightarrow> string \<Rightarrow> bool" where
  "contains_text p [] = (p = [])"
| "contains_text p (c # cs) = (startswith p (c # cs) \<or> contains_text p cs)"

subsection \<open>Example feeds, providers and parsers\<close>

definition ldrs_url :: string where
  "ldrs_url = ''https://api.ldrs.org.uk/v1/item''"

definition ldrs_config :: "(string \<times> string) list" where
  "ldrs_config = [(''url'', ldrs_url), (''api_key'', ''secret'')]"

definition ldrs_provider :: provider where
  "ldrs_provider = \<lparr>config = Some ldrs_config, last_updated = None\<rparr>"

text \<open>The request that the walk over \<open>ldrs_provider\<close> sends for an offset.\<close>

definition ldrs_page :: "int \<Rightarrow> request" where
  "ldrs_page offset = page_request ldrs_url ''secret'' epoch offset"

definition ok_page :: "string \<Rightarrow> outcome" where
  "ok_page body = Returns \<lparr>ok = True, status_code = 200, reason = ''OK'', resp_text = body\<rparr>"

definition failed_page :: "int \<Rightarrow> string \<Rightarrow> string \<Rightarrow> outcome" where
  "failed_page status why body =
     Returns \<lparr>ok = False, status_code = status, reason = why, resp_text = body\<rparr>"

definition offset_of :: "request \<Rightarrow> param option" where
  "offset_of rq = map_of (params rq) ''offset''"

text \<open>A feed of 15 items: three different bodies, all with total 15.\<close>

definition page_a :: string where
  "page_a = ''{\"total\": 15, \"items\": [\"a\"]}''"

definition page_b :: string where
  "page_b = ''{\"total\": 15, \"items\": [\"b\"]}''"

definition page_c :: string where
  "page_c = ''{\"total\": 15, \"items\": []}''"

definition feed15 :: "request \<Rightarrow> outcome" where
  "feed15 rq =
     (if offset_of rq = Some (I 0) then ok_page page_a
      else if offset_of rq = Some (I 10) then ok_page page_b
      else ok_page page_c)"

text \<open>A feed of 10 items, and an empty feed.\<close>

definition page10 :: string where
  "page10 = ''{\"total\": 10, \"items\": [\"a\"]}''"

definition feed10 :: "request \<Rightarrow> outcome" where
  "feed10 rq = ok_page page10"

definition page0 :: string where
  "page0 = ''{\"total\": 0, \"items\": []}''"

definition feed0 :: "request \<Rightarrow> outcome" where
  "feed0 rq = ok_page page0"

text \<open>Ok pages without a number after \<^verbatim>\<open>"total":\<close>, and without the key at all.\<close>

definition feed_no_total :: "request \<Rightarrow> outcome" where
  "feed_no_total rq = ok_page ''{\"items\": []}''"

definition feed_null_total :: "request \<Rightarrow> outcome" where
  "feed_null_total rq = ok_page ''{\"total\": null}''"

text \<open>
  A feed whose second page cannot be reached, and a feed whose second page is not sent
  within the 30 seconds of the timeout.
\<close>

definition feed_down :: "request \<Rightarrow> outcome" where
  "feed_down rq =
     (if offset_of rq = Some (I 0) then ok_page page_a
      else Raises_ConnectionError (External ''Connection refused''))"

definition feed_slow :: "request \<Rightarrow> outcome" where
  "feed_slow rq =
     (if offset_of rq = Some (I 0) then ok_page page_a
      else Raises (ReadTimeout ''Read timed out. (read timeout=30)''))"

text \<open>
  A feed that loses the API key on the second page and answers 404 with the marker as
  the body, and a feed that answers 500 with the marker inside a JSON body.
\<close>

definition feed_no_key :: "request \<Rightarrow> outcome" where
  "feed_no_key rq =
     (if offset_of rq = Some (I 0) then ok_page page_a
      else failed_page 404 ''Not Found'' ''Error: No API Key provided'')"

definition wrapped_marker :: string where
  "wrapped_marker = ''{\"message\": \"Error: No API Key provided\"}''"

definition feed_wrapped_marker :: "request \<Rightarrow> outcome" where
  "feed_wrapped_marker rq = failed_page 500 ''Internal Server Error'' wrapped_marker"

text \<open>A parser registry whose parser counts the characters of a page and fails on \<open>page_b\<close>.\<close>

definition count_parser :: "string \<Rightarrow> exc + nat" where
  "count_parser item =
     (if item = page_b then Inl (External ''ValueError'') else Inr (length item))"

definition count_registry :: "provider \<Rightarrow> string \<Rightarrow> exc + (string \<Rightarrow> exc + nat)" where
  "count_registry provider item = Inr count_parser"

text \<open>A registry that has no parser for \<open>page_b\<close>; its parser never fails.\<close>

definition length_parser :: "string \<Rightarrow> exc + nat" where
  "length_parser item = Inr (length item)"

definition picky_registry :: "provider \<Rightarrow> string \<Rightarrow> exc + (string \<Rightarrow> exc + nat)" where
  "picky_registry provider item =
     (if item = page_b then Inl (External ''no parser for this item'') else Inr length_parser)"

text \<open>A registry whose parser ends the interpreter on \<open>page_b\<close>.\<close>

definition exit_parser :: "string \<Rightarrow> exc + nat" where
  "exit_parser item =
     (if item = page_b then Inl (SystemExit ''1'') else Inr (length item))"

definition exit_registry :: "provider \<Rightarrow> string \<Rightarrow> exc + (string \<Rightarrow> exc + nat)" where
  "exit_registry provider item = Inr exit_parser"

section \<open>Properties\<close>

subsection \<open>One turn of the loop\<close>

lemma fetch_loop_Raise:
  "fetch_page (get (page_request u k s offset)) provider offset items = Raise e \<Longrightarrow>
   fetch_loop get u k s provider offset items sent =
     Some (Inl e, sent @ [page_request u k s offset])"
  by (subst fetch_loop.simps) simp

lemma fetch_loop_Return:
  "fetch_page (get (page_request u k s offset)) provider offset items = Return items' \<Longrightarrow>
   fetch_loop get u k s provider offset items sent =
     Some (Inr items', sent @ [page_request u k s offset])"
  by (subst fetch_loop.simps) simp

lemma fetch_loop_Continue:
  "fetch_page (get (page_request u k s offset)) provider offset items = Continue offset' items' \<Longrightarrow>
   fetch_loop get u k s provider offset items sent =
     fetch_loop get u k s provider offset' items' (sent @ [page_request u k s offset])"
  by (subst fetch_loop.simps) simp

lemma reportsE:
  assumes "reports out T"
  obtains r where "out = Returns r" "ok r" "num_results_of (resp_text r) = Some T"
  using assms by (auto simp: reports_def split: outcome.splits)

lemma fetch_page_reports:
  assumes "reports out T"
  shows "fetch_page out provider offset items =
     (if offset \<ge> T then Return (if T > 0 then items @ [page_body out] else items)
      else Continue (offset + offset_jump) (if T > 0 then items @ [page_body out] else items))"
proof -
  from assms obtain r where "out = Returns r" "ok r" "num_results_of (resp_text r) = Some T"
    by (rule reportsE)
  then show ?thesis
    by (auto simp: fetch_page_def page_body_def num_results_of_def split: sum.splits option.splits)
qed

subsection \<open>A feed that reports the same total on every page\<close>

lemma fetch_loop_constant_total:
  assumes pages: "\<And>offset. reports (get (page_request u k s offset)) T"
  shows "fetch_loop get u k s provider offset items sent =
           Some (Inr (items @ (if T > 0
                               then map (\<lambda>i. page_body (get (page_request u k s i)))
                                      (walk_offsets T offset)
                               else [])),
                 sent @ map (page_request u k s) (walk_offsets T offset))"
  using pages
proof (induction T offset arbitrary: items sent rule: walk_offsets.induct)
  case (1 num_results offset)
  have page: "reports (get (page_request u k s offset)) num_results"
    using "1.prems" by simp
  note step = fetch_page_reports [OF page, of provider offset items]
  show ?case
  proof (cases "offset \<ge> num_results")
    case True
    then show ?thesis
      using step by (simp add: fetch_loop_Return walk_offsets.simps [of num_results offset])
  next
    case False
    then show ?thesis
      using step "1.IH" [OF False "1.prems"]
      by (simp add: fetch_loop_Continue walk_offsets.simps [of num_results offset])
  qed
qed

lemma ceil_step:
  fixes x :: int
  assumes "0 < x"
  shows "nat ((x + 9) div 10) = Suc (nat ((x - 1) div 10))"
proof -
  have "(x + 9) div 10 = (x - 1 + 1 * 10) div 10" by simp
  also have "\<dots> = (x - 1) div 10 + 1" by (simp only: div_mult_self1)
  finally have e: "(x + 9) div 10 = (x - 1) div 10 + 1" .
  have "0 \<le> (x - 1) div 10" using assms by (simp add: pos_imp_zdiv_nonneg_iff)
  then show ?thesis by (simp add: e nat_add_distrib)
qed

lemma walk_offsets_eq:
  "walk_offsets T offset =
     map (\<lambda>i. offset + offset_jump * int i) [0..<Suc (nat ((T - offset + 9) div 10))]"
proof (induction T offset rule: walk_offsets.induct)
  case (1 num_results offset)
  show ?case
  proof (cases "offset \<ge> num_results")
    case True
    then have "nat ((num_results - offset + 9) div 10) = 0" by simp
    then show ?thesis using True by (simp add: walk_offsets.simps [of num_results offset])
  next
    case False
    define m where "m = nat ((num_results - (offset + offset_jump) + 9) div 10)"
    have n: "nat ((num_results - offset + 9) div 10) = Suc m"
      using False ceil_step [of "num_results - offset"]
      by (simp add: m_def offset_jump_def algebra_simps)
    have "map (\<lambda>i. offset + offset_jump * int i) [0..<Suc (Suc m)] =
          offset # map (\<lambda>i. offset + offset_jump + offset_jump * int i) [0..<Suc m]"
      by (subst map_upt_Suc) (simp add: algebra_simps del: upt_Suc)
    moreover have "walk_offsets num_results offset =
          offset # map (\<lambda>i. offset + offset_jump + offset_jump * int i) [0..<Suc m]"
      using False "1.IH" [OF False] 
      by (simp add: walk_offsets.simps [of num_results offset] m_def del: upt_Suc)
    ultimately show ?thesis
      by (simp only: n)
  qed
qed

lemma fetch_data_loop:
  "map_of cfg ''url'' = Some u \<Longrightarrow> map_of cfg ''api_key'' = Some k \<Longrightarrow>
   fetch_data get cfg provider = fetch_loop get u k (last_update_of provider) provider 0 [] []"
  by (simp add: fetch_data_def)

lemma ceil_bounds:
  fixes T :: int
  shows "T \<le> 10 * ((T + 9) div 10)" and "10 * ((T + 9) div 10) \<le> T + 9"
  by presburger+

subsection \<open>Evaluating the examples\<close>

lemmas regex_defs =
  results_str_of_def group_def total_key_def startswith_def digit_def

lemma results_str_examples:
  "results_str_of page_a = Inr (Some ''15'')" "results_str_of page_b = Inr (Some ''15'')"
  "results_str_of page_c = Inr (Some ''15'')" "results_str_of page10 = Inr (Some ''10'')"
  "results_str_of page0 = Inr (Some ''0'')"
  by (simp_all add: regex_defs page_a_def page_b_def page_c_def page10_def page0_def)

lemma py_int_examples: "py_int ''15'' = 15" "py_int ''10'' = 10" "py_int ''0'' = 0"
  by (simp_all add: py_int_def digit_value_def)

lemma num_results_examples:
  "num_results_of page_a = Some 15" "num_results_of page_b = Some 15"
  "num_results_of page_c = Some 15" "num_results_of page10 = Some 10"
  "num_results_of page0 = Some 0"
  by (simp_all add: num_results_of_def results_str_examples py_int_examples)

lemma ldrs_keys:
  "map_of ldrs_config ''url'' = Some ldrs_url" "map_of ldrs_config ''api_key'' = Some ''secret''"
  by (simp_all add: ldrs_config_def)

lemma ldrs_last_update: "last_update_of ldrs_provider = epoch"
  by (simp add: last_update_of_def ldrs_provider_def)

lemma offset_of_ldrs_page: "offset_of (ldrs_page offset) = Some (I offset)"
  by (simp add: offset_of_def ldrs_page_def page_request_def)

lemma feed15_reports: "reports (feed15 rq) 15"
  by (simp add: feed15_def ok_page_def reports_def num_results_examples)

lemma feed10_reports: "reports (feed10 rq) 10"
  by (simp add: feed10_def ok_page_def reports_def num_results_examples)

lemma feed0_reports: "reports (feed0 rq) 0"
  by (simp add: feed0_def ok_page_def reports_def num_results_examples)

lemma feed15_bodies:
  "page_body (feed15 (ldrs_page 0)) = page_a" "page_body (feed15 (ldrs_page 10)) = page_b"
  "page_body (feed15 (ldrs_page 20)) = page_c"
  by (simp_all add: feed15_def offset_of_ldrs_page ok_page_def page_body_def)

text \<open>The walk over the feed of 15 items, step by step.\<close>

lemma feed15_walk:
  "fetch_data feed15 ldrs_config ldrs_provider =
     Some (Inr [page_a, page_b, page_c], [ldrs_page 0, ldrs_page 10, ldrs_page 20])"
  by (simp add: fetch_data_def ldrs_config_def ldrs_page_def ldrs_last_update fetch_loop.simps
      feed15_def offset_of_def page_request_def ok_page_def fetch_page_def results_str_examples
      py_int_examples offset_jump_def)

text \<open>
  C1 (as the code has it). When the pages at offsets 0, 10 and 20 are ok and report the
  total 15, the walk sends exactly these three requests and returns the three bodies:
  the page at offset 10 does not end the walk, the page at offset 20 does.
\<close>

theorem fetch_total_15_three_pages:
  assumes "map_of cfg ''url'' = Some u" and "map_of cfg ''api_key'' = Some k"
    and "reports (get (page_request u k (last_update_of provider) 0)) 15"
    and "reports (get (page_request u k (last_update_of provider) 10)) 15"
    and "reports (get (page_request u k (last_update_of provider) 20)) 15"
  shows "fetch_data get cfg provider =
           Some (Inr [page_body (get (page_request u k (last_update_of provider) 0)),
                      page_body (get (page_request u k (last_update_of provider) 10)),
                      page_body (get (page_request u k (last_update_of provider) 20))],
                 [page_request u k (last_update_of provider) 0,
                  page_request u k (last_update_of provider) 10,
                  page_request u k (last_update_of provider) 20])"
proof -
  let ?rq = "page_request u k (last_update_of provider)"
  let ?b = "\<lambda>i. page_body (get (?rq i))"
  have p0: "fetch_page (get (?rq 0)) provider 0 [] = Continue 10 [?b 0]"
    using fetch_page_reports [OF assms(3), of provider 0 "[]"] by (simp add: offset_jump_def)
  have p1: "fetch_page (get (?rq 10)) provider 10 [?b 0] = Continue 20 [?b 0, ?b 10]"
    using fetch_page_reports [OF assms(4), of provider 10 "[?b 0]"] by (simp add: offset_jump_def)
  have p2: "fetch_page (get (?rq 20)) provider 20 [?b 0, ?b 10] = Return [?b 0, ?b 10, ?b 20]"
    using fetch_page_reports [OF assms(5), of provider 20 "[?b 0, ?b 10]"] by simp
  have "fetch_data get cfg provider = fetch_loop get u k (last_update_of provider) provider 0 [] []"
    using assms(1,2) by (rule fetch_data_loop)
  also have "\<dots> = fetch_loop get u k (last_update_of provider) provider 10 [?b 0] [?rq 0]"
    using fetch_loop_Continue [where get = get and offset = 0, OF p0, of "[]"] by simp
  also have "\<dots> = fetch_loop get u k (last_update_of provider) provider 20 [?b 0, ?b 10] [?rq 0, ?rq 10]"
    using fetch_loop_Continue [where get = get and offset = 10, OF p1, of "[?rq 0]"] by simp
  also have "\<dots> = Some (Inr [?b 0, ?b 10, ?b 20], [?rq 0, ?rq 10, ?rq 20])"
    using fetch_loop_Return [where get = get and offset = 20, OF p2, of "[?rq 0, ?rq 10]"] by simp
  finally show ?thesis .
qed

theorem fetch_total_15_three_pages_witness:
  "map_of ldrs_config ''url'' = Some ldrs_url \<and> map_of ldrs_config ''api_key'' = Some ''secret''
   \<and> reports (feed15 (ldrs_page 0)) 15 \<and> reports (feed15 (ldrs_page 10)) 15
   \<and> reports (feed15 (ldrs_page 20)) 15
   \<and> fetch_data feed15 ldrs_config ldrs_provider =
       Some (Inr [page_a, page_b, page_c], [ldrs_page 0, ldrs_page 10, ldrs_page 20])"
  using fetch_total_15_three_pages [of ldrs_config ldrs_url "''secret''" feed15 ldrs_provider]
  by (simp add: ldrs_keys ldrs_last_update feed15_reports feed15_bodies flip: ldrs_page_def)

text \<open>
  C1 as stated fails: on the feed of 15 items the walk returns three bodies, not two,
  and sends a request at offset 20 after the one at offset 10.
\<close>

theorem fetch_total_15_counterexample:
  "fetch_data feed15 ldrs_config ldrs_provider =
     Some (Inr [page_a, page_b, page_c], [ldrs_page 0, ldrs_page 10, ldrs_page 20])
   \<and> length [page_a, page_b, page_c] \<noteq> 2"
  using feed15_walk by simp

lemma fetch_data_constant_total:
  assumes "map_of cfg ''url'' = Some u" and "map_of cfg ''api_key'' = Some k"
    and "\<And>offset. reports (get (page_request u k (last_update_of provider) offset)) T"
  shows "fetch_data get cfg provider =
           Some (Inr (if T > 0
                      then map (\<lambda>i. page_body (get (page_request u k (last_update_of provider)
                                                     (offset_jump * int i))))
                             [0..<Suc (nat ((T + 9) div 10))]
                      else []),
                 map (\<lambda>i. page_request u k (last_update_of provider) (offset_jump * int i))
                   [0..<Suc (nat ((T + 9) div 10))])"
proof -
  have "fetch_data get cfg provider =
          fetch_loop get u k (last_update_of provider) provider 0 [] []"
    using assms(1,2) by (rule fetch_data_loop)
  also have "\<dots> =
      Some (Inr ([] @ (if T > 0
                       then map (\<lambda>i. page_body (get (page_request u k (last_update_of provider) i)))
                              (walk_offsets T 0)
                       else [])),
            [] @ map (page_request u k (last_update_of provider)) (walk_offsets T 0))"
    using assms(3) by (rule fetch_loop_constant_total)
  finally show ?thesis
    by (simp add: walk_offsets_eq comp_def del: upt_Suc)
qed

lemma last_offset_bounds:
  fixes T :: int
  assumes "0 \<le> T"
  shows "T \<le> offset_jump * int (nat ((T + 9) div 10))"
    and "i < nat ((T + 9) div 10) \<Longrightarrow> offset_jump * int i < T"
proof -
  have nn: "0 \<le> (T + 9) div 10" using assms by (simp add: pos_imp_zdiv_nonneg_iff)
  show "T \<le> offset_jump * int (nat ((T + 9) div 10))"
    using nn ceil_bounds(1) [of T] by (simp add: offset_jump_def)
  assume "i < nat ((T + 9) div 10)"
  then have "int i + 1 \<le> (T + 9) div 10" using nn by linarith
  then have "10 * int i + 10 \<le> 10 * ((T + 9) div 10)" by linarith
  then show "offset_jump * int i < T"
    using ceil_bounds(2) [of T] by (simp add: offset_jump_def)
qed

text \<open>
  C9. When every page is ok and reports the same total \<open>T \<ge> 0\<close>, the walk returns.
  It sends the requests for the offsets \<open>0, 10, \<dots>, 10 * m\<close>, one after the other; the
  last offset has reached the total and no earlier one has. With \<open>T = 0\<close> the walk is
  the single request at offset 0 and no body is appended.
\<close>

theorem page_walk_terminates:
  assumes "map_of cfg ''url'' = Some u" and "map_of cfg ''api_key'' = Some k"
    and "0 \<le> T"
    and "\<And>offset. reports (get (page_request u k (last_update_of provider) offset)) T"
  shows "fetch_data get cfg provider =
           Some (Inr (if T > 0
                      then map (\<lambda>i. page_body (get (page_request u k (last_update_of provider)
                                                     (offset_jump * int i))))
                             [0..<Suc (nat ((T + 9) div 10))]
                      else []),
                 map (\<lambda>i. page_request u k (last_update_of provider) (offset_jump * int i))
                   [0..<Suc (nat ((T + 9) div 10))])
         \<and> T \<le> offset_jump * int (nat ((T + 9) div 10))
         \<and> (\<forall>i < nat ((T + 9) div 10). offset_jump * int i < T)
         \<and> (T = 0 \<longrightarrow> fetch_data get cfg provider =
                          Some (Inr [], [page_request u k (last_update_of provider) 0]))"
proof -
  note walk = fetch_data_constant_total [of cfg u k get provider T, OF assms(1,2,4)]
  have "T = 0 \<Longrightarrow> fetch_data get cfg provider =
                     Some (Inr [], [page_request u k (last_update_of provider) 0])"
    using walk by simp
  then show ?thesis
    using walk last_offset_bounds [OF assms(3)] by blast
qed

theorem page_walk_terminates_witness:
  "map_of ldrs_config ''url'' = Some ldrs_url \<and> map_of ldrs_config ''api_key'' = Some ''secret''
   \<and> (0::int) \<le> 15 \<and> (\<forall>offset. reports (feed15 (ldrs_page offset)) 15)
   \<and> fetch_data feed15 ldrs_config ldrs_provider =
       Some (Inr [page_a, page_b, page_c], [ldrs_page 0, ldrs_page 10, ldrs_page 20])
   \<and> (15::int) \<le> offset_jump * 2 \<and> offset_jump * 1 < (15::int)
   \<and> (0::int) \<le> 0 \<and> (\<forall>offset. reports (feed0 (ldrs_page offset)) 0)
   \<and> fetch_data feed0 ldrs_config ldrs_provider = Some (Inr [], [ldrs_page 0])"
proof -
  have two: "nat (((15::int) + 9) div 10) = 2" by simp
  have walk15: "[0..<Suc 2] = [0, 1, 2]" by (simp add: upt_rec)
  have "fetch_data feed15 ldrs_config ldrs_provider =
          Some (Inr [page_a, page_b, page_c], [ldrs_page 0, ldrs_page 10, ldrs_page 20])"
    using page_walk_terminates [of ldrs_config ldrs_url "''secret''" 15 feed15 ldrs_provider]
    unfolding two walk15
    by (simp add: ldrs_keys ldrs_last_update feed15_reports feed15_bodies offset_jump_def
        flip: ldrs_page_def)
  moreover have "fetch_data feed0 ldrs_config ldrs_provider = Some (Inr [], [ldrs_page 0])"
    using page_walk_terminates [of ldrs_config ldrs_url "''secret''" 0 feed0 ldrs_provider]
    by (simp add: ldrs_keys ldrs_last_update feed0_reports flip: ldrs_page_def)
  ultimately show ?thesis
    by (simp add: ldrs_keys feed15_reports feed0_reports offset_jump_def)
qed

text \<open>
  C2 (as the code has it). When every page is ok and reports the same total \<open>T > 0\<close>,
  the walk returns after finitely many requests, and their number is one more than the
  smallest \<open>j\<close> with \<open>j * 10 \<ge> T\<close>: the walk only stops at a page whose own offset has
  reached the total, and every page it read, that one too, is in the result.
\<close>

theorem fetch_request_count:
  assumes "map_of cfg ''url'' = Some u" and "map_of cfg ''api_key'' = Some k"
    and "0 < T"
    and "\<And>offset. reports (get (page_request u k (last_update_of provider) offset)) T"
  shows "\<exists>items sent. fetch_data get cfg provider = Some (Inr items, sent)
           \<and> items = map (\<lambda>rq. page_body (get rq)) sent
           \<and> length items = length sent
           \<and> length sent = Suc (nat ((T + 9) div 10))
           \<and> T \<le> offset_jump * (int (length sent) - 1)
           \<and> offset_jump * (int (length sent) - 2) < T"
proof -
  note walk = fetch_data_constant_total [of cfg u k get provider T, OF assms(1,2,4)]
  have nn: "0 \<le> T" using assms(3) by simp
  have pos: "0 < nat ((T + 9) div 10)"
    using assms(3) ceil_bounds(1) [of T] by (simp add: zero_less_nat_eq)
  have "offset_jump * int (nat ((T + 9) div 10) - 1) < T"
    using pos by (intro last_offset_bounds(2) [OF nn]) simp
  then have "offset_jump * (int (Suc (nat ((T + 9) div 10))) - 2) < T"
    using pos by (simp add: of_nat_diff algebra_simps)
  moreover have "T \<le> offset_jump * (int (Suc (nat ((T + 9) div 10))) - 1)"
    using last_offset_bounds(1) [OF nn] by simp
  ultimately show ?thesis
    using walk assms(3) by (simp add: comp_def del: upt_Suc)
qed

theorem fetch_request_count_witness:
  "map_of ldrs_config ''url'' = Some ldrs_url \<and> map_of ldrs_config ''api_key'' = Some ''secret''
   \<and> (0::int) < 10 \<and> (\<forall>offset. reports (feed10 (ldrs_page offset)) 10)
   \<and> (\<exists>items sent. fetch_data feed10 ldrs_config ldrs_provider = Some (Inr items, sent)
         \<and> items = map (\<lambda>rq. page_body (feed10 rq)) sent
         \<and> length items = length sent \<and> length sent = 2
         \<and> 10 \<le> offset_jump * (int (length sent) - 1)
         \<and> offset_jump * (int (length sent) - 2) < 10)"
  using fetch_request_count [of ldrs_config ldrs_url "''secret''" 10 feed10 ldrs_provider]
  by (simp add: ldrs_keys ldrs_last_update feed10_reports numeral_2_eq_2 flip: ldrs_page_def)

text \<open>
  C2 as stated fails: for the total 10 one request already covers it (\<open>1 * 10 \<ge> 10\<close>),
  and the walk sends two.
\<close>

theorem fetch_request_count_counterexample:
  "fetch_data feed10 ldrs_config ldrs_provider =
     Some (Inr [page10, page10], [ldrs_page 0, ldrs_page 10])
   \<and> (10::int) \<le> 1 * offset_jump
   \<and> length [ldrs_page 0, ldrs_page 10] \<noteq> 1"
  by (simp add: fetch_data_def ldrs_config_def ldrs_page_def ldrs_last_update fetch_loop.simps
      feed10_def ok_page_def fetch_page_def results_str_examples py_int_examples
      offset_jump_def)

text \<open>
  C5. When the first page is ok and reports the total 0, the walk returns the empty
  sequence and the request for offset 0 is the only one it sent.
\<close>

theorem fetch_total_zero:
  assumes "map_of cfg ''url'' = Some u" and "map_of cfg ''api_key'' = Some k"
    and "reports (get (page_request u k (last_update_of provider) 0)) 0"
  shows "fetch_data get cfg provider =
           Some (Inr [], [page_request u k (last_update_of provider) 0])"
proof -
  have "fetch_page (get (page_request u k (last_update_of provider) 0)) provider 0 [] = Return []"
    using fetch_page_reports [OF assms(3), of provider 0 "[]"] by simp
  then have "fetch_loop get u k (last_update_of provider) provider 0 [] [] =
               Some (Inr [], [] @ [page_request u k (last_update_of provider) 0])"
    by (rule fetch_loop_Return)
  then show ?thesis
    using fetch_data_loop [OF assms(1,2), of get provider] by simp
qed

theorem fetch_total_zero_witness:
  "map_of ldrs_config ''url'' = Some ldrs_url \<and> map_of ldrs_config ''api_key'' = Some ''secret''
   \<and> reports (feed0 (ldrs_page 0)) 0
   \<and> fetch_data feed0 ldrs_config ldrs_provider = Some (Inr [], [ldrs_page 0])"
  using fetch_total_zero [of ldrs_config ldrs_url "''secret''" feed0 ldrs_provider]
  by (simp add: ldrs_keys ldrs_last_update feed0_reports flip: ldrs_page_def)

subsection \<open>Failures of a page request\<close>

text \<open>
  C3 (as the code has it). A page response that is not ok and whose body begins with
  \<^verbatim>\<open>Error: No API Key provided\<close> ends the walk with the auth error, whatever the
  status code is, 404 included, and whatever page of the walk it is (the loop may be
  at any offset, with any pages read so far). The error carries the body.
\<close>

theorem fetch_no_api_key_auth_error:
  assumes "get (page_request u k s offset) = Returns r"
    and "\<not> ok r"
    and "startswith no_api_key (resp_text r)"
  shows "fetch_loop get u k s provider offset items sent =
           Some (Inl (IngestApiError apiAuthError (Exception (resp_text r)) (Some provider)),
                 sent @ [page_request u k s offset])"
proof -
  have "fetch_page (get (page_request u k s offset)) provider offset items =
          Raise (IngestApiError apiAuthError (Exception (resp_text r)) (Some provider))"
    using assms by (simp add: fetch_page_def re_match_no_api_key_def)
  then show ?thesis by (rule fetch_loop_Raise)
qed

lemma feed_no_key_second:
  "feed_no_key (ldrs_page 10) = failed_page 404 ''Not Found'' ''Error: No API Key provided''"
  by (simp add: feed_no_key_def offset_of_ldrs_page)

theorem fetch_no_api_key_auth_error_witness:
  "feed_no_key (ldrs_page 10) =
     Returns \<lparr>ok = False, status_code = 404, reason = ''Not Found'',
              resp_text = ''Error: No API Key provided''\<rparr>
   \<and> startswith no_api_key ''Error: No API Key provided''
   \<and> fetch_loop feed_no_key ldrs_url ''secret'' epoch ldrs_provider 10 [page_a] [ldrs_page 0] =
       Some (Inl (IngestApiError apiAuthError (Exception ''Error: No API Key provided'')
                    (Some ldrs_provider)),
             [ldrs_page 0, ldrs_page 10])
   \<and> fetch_data feed_no_key ldrs_config ldrs_provider =
       Some (Inl (IngestApiError apiAuthError (Exception ''Error: No API Key provided'')
                    (Some ldrs_provider)),
             [ldrs_page 0, ldrs_page 10])"
proof -
  have marker: "startswith no_api_key ''Error: No API Key provided''"
    by (simp add: startswith_def no_api_key_def)
  have first: "fetch_page (feed_no_key (ldrs_page 0)) ldrs_provider 0 [] = Continue 10 [page_a]"
    by (simp add: feed_no_key_def offset_of_ldrs_page ok_page_def fetch_page_def
        results_str_examples py_int_examples offset_jump_def)
  have later: "fetch_loop feed_no_key ldrs_url ''secret'' epoch ldrs_provider 10 [page_a]
                 [ldrs_page 0] =
       Some (Inl (IngestApiError apiAuthError (Exception ''Error: No API Key provided'')
                    (Some ldrs_provider)),
             [ldrs_page 0, ldrs_page 10])"
    using fetch_no_api_key_auth_error [of feed_no_key ldrs_url "''secret''" epoch 10
        "\<lparr>ok = False, status_code = 404, reason = ''Not Found'',
          resp_text = ''Error: No API Key provided''\<rparr>" ldrs_provider "[page_a]" "[ldrs_page 0]"]
    by (simp add: feed_no_key_second failed_page_def marker flip: ldrs_page_def)
  have "fetch_data feed_no_key ldrs_config ldrs_provider =
          fetch_loop feed_no_key ldrs_url ''secret'' epoch ldrs_provider 0 [] []"
    by (simp add: fetch_data_loop [OF ldrs_keys] ldrs_last_update)
  also have "\<dots> = fetch_loop feed_no_key ldrs_url ''secret'' epoch ldrs_provider 10 [page_a]
                      [ldrs_page 0]"
    using fetch_loop_Continue [of feed_no_key ldrs_url "''secret''" epoch 0 ldrs_provider "[]"
        10 "[page_a]" "[]"] first
    by (simp flip: ldrs_page_def)
  finally show ?thesis
    using later marker by (simp add: feed_no_key_second failed_page_def)
qed

text \<open>
  C3 as stated fails: a 500 response whose JSON body contains the marker, but does not
  begin with it, is classified by its status code and gives the general error.
\<close>

theorem fetch_marker_inside_body_counterexample:
  "contains_text no_api_key wrapped_marker
   \<and> feed_wrapped_marker (ldrs_page 0) =
       Returns \<lparr>ok = False, status_code = 500, reason = ''Internal Server Error'',
                resp_text = wrapped_marker\<rparr>
   \<and> fetch_data feed_wrapped_marker ldrs_config ldrs_provider =
       Some (Inl (IngestApiError apiGeneralError (Exception ''Internal Server Error'')
                    (Some ldrs_provider)),
             [ldrs_page 0])"
proof -
  have "contains_text no_api_key wrapped_marker"
    by (simp add: no_api_key_def wrapped_marker_def startswith_def)
  moreover have "\<not> re_match_no_api_key wrapped_marker"
    by (simp add: re_match_no_api_key_def no_api_key_def wrapped_marker_def startswith_def)
  ultimately show ?thesis
    by (simp add: fetch_data_def ldrs_config_def ldrs_page_def ldrs_last_update
        fetch_loop.simps feed_wrapped_marker_def failed_page_def fetch_page_def)
qed

text \<open>
  \<^verbatim>\<open>group()\<close> returns a text or raises, so \<^verbatim>\<open>results_str\<close> is never \<^verbatim>\<open>None\<close>, the
  test of line 121 never holds, and no ok page gives the general error.
\<close>

lemma group_not_None: "group m \<noteq> Inr None"
  by (simp add: group_def split: option.splits)

lemma results_str_not_None: "results_str_of body \<noteq> Inr None"
  by (simp add: results_str_of_def group_not_None split: sum.splits option.splits)

lemma ok_page_never_general_error:
  "ok r \<Longrightarrow>
   fetch_page (Returns r) provider offset items \<noteq> Raise (IngestApiError apiGeneralError ex p)"
  by (simp add: fetch_page_def Let_def results_str_not_None split: sum.splits option.splits)

text \<open>When the first search finds nothing, or the second one does, the page raises.\<close>

lemma ok_page_without_total:
  "ok r \<Longrightarrow> re_search_total (resp_text r) = None \<Longrightarrow>
   fetch_page (Returns r) provider offset items = Raise (Uncaught (AttributeError ''group''))"
  by (simp add: fetch_page_def results_str_of_def group_def)

lemma ok_page_without_digits:
  "ok r \<Longrightarrow> re_search_total (resp_text r) = Some item_ident \<Longrightarrow>
   re_search_digits item_ident = None \<Longrightarrow>
   fetch_page (Returns r) provider offset items = Raise (Uncaught (AttributeError ''group''))"
  by (simp add: fetch_page_def results_str_of_def group_def)

text \<open>
  C4 (the code does not do this). An ok page without \<^verbatim>\<open>"total":\<close>, or with the key
  and no digit after it, makes \<^verbatim>\<open>re.search\<close> return \<^verbatim>\<open>None\<close>; \<^verbatim>\<open>.group()\<close> on it
  raises an \<^verbatim>\<open>AttributeError\<close>, which leaves the walk uncaught. The general error of
  line 122 is never raised.
\<close>

theorem fetch_missing_total_attribute_error:
  "fetch_data feed_no_total ldrs_config ldrs_provider =
     Some (Inl (Uncaught (AttributeError ''group'')), [ldrs_page 0])
   \<and> fetch_data feed_null_total ldrs_config ldrs_provider =
     Some (Inl (Uncaught (AttributeError ''group'')), [ldrs_page 0])"
proof -
  have "results_str_of ''{\"items\": []}'' = Inl (AttributeError ''group'')"
    by (simp add: regex_defs)
  moreover have "results_str_of ''{\"total\": null}'' = Inl (AttributeError ''group'')"
    by (simp add: regex_defs)
  ultimately show ?thesis
    by (simp add: fetch_data_def ldrs_config_def ldrs_page_def ldrs_last_update
        fetch_loop.simps feed_no_total_def feed_null_total_def ok_page_def fetch_page_def)
qed

text \<open>The walk over a feed whose first page is \<open>page_a\<close>, up to its second request.\<close>

lemma ldrs_walk_second_page:
  assumes "feed (ldrs_page 0) = ok_page page_a"
  shows "fetch_data feed ldrs_config ldrs_provider =
           fetch_loop feed ldrs_url ''secret'' epoch ldrs_provider 10 [page_a] [ldrs_page 0]"
proof -
  have first: "fetch_page (feed (ldrs_page 0)) ldrs_provider 0 [] = Continue 10 [page_a]"
    by (simp add: assms ok_page_def fetch_page_def results_str_examples py_int_examples
        offset_jump_def)
  have "fetch_data feed ldrs_config ldrs_provider =
          fetch_loop feed ldrs_url ''secret'' epoch ldrs_provider 0 [] []"
    by (simp add: fetch_data_loop [OF ldrs_keys] ldrs_last_update)
  also have "\<dots> = fetch_loop feed ldrs_url ''secret'' epoch ldrs_provider 10 [page_a]
                      [ldrs_page 0]"
    using fetch_loop_Continue [of feed ldrs_url "''secret''" epoch 0 ldrs_provider "[]"
        10 "[page_a]" "[]"] first
    by (simp flip: ldrs_page_def)
  finally show ?thesis .
qed

lemma feed_down_pages:
  "feed_down (ldrs_page 0) = ok_page page_a"
  "feed_down (ldrs_page 10) = Raises_ConnectionError (External ''Connection refused'')"
  by (simp_all add: feed_down_def offset_of_ldrs_page)

lemma feed_slow_pages:
  "feed_slow (ldrs_page 0) = ok_page page_a"
  "feed_slow (ldrs_page 10) = Raises (ReadTimeout ''Read timed out. (read timeout=30)'')"
  by (simp_all add: feed_slow_def offset_of_ldrs_page)

text \<open>
  C6 (as the code has it). An exception of a page request ends the walk at once, at
  whatever offset the loop is and whatever pages it has read; the failed request is
  the last one sent and the result holds none of the pages read. When the exception is
  a \<^verbatim>\<open>requests.exceptions.ConnectionError\<close> the result is the connection error with the
  exception as its cause. An exception of any other class, a read timeout among them,
  is not caught by line 111 and is the result as it is.
\<close>

theorem fetch_request_failure:
  "(get (page_request u k s offset) = Raises_ConnectionError err \<longrightarrow>
      fetch_loop get u k s provider offset items sent =
        Some (Inl (IngestApiError apiConnectionError err None),
              sent @ [page_request u k s offset]))
   \<and> (get (page_request u k s offset) = Raises e \<longrightarrow>
      fetch_loop get u k s provider offset items sent =
        Some (Inl (Uncaught e), sent @ [page_request u k s offset]))"
proof (intro conjI impI)
  assume "get (page_request u k s offset) = Raises_ConnectionError err"
  then have "fetch_page (get (page_request u k s offset)) provider offset items =
          Raise (IngestApiError apiConnectionError err None)"
    by (simp add: fetch_page_def)
  then show "fetch_loop get u k s provider offset items sent =
      Some (Inl (IngestApiError apiConnectionError err None), sent @ [page_request u k s offset])"
    by (rule fetch_loop_Raise)
next
  assume "get (page_request u k s offset) = Raises e"
  then have "fetch_page (get (page_request u k s offset)) provider offset items =
          Raise (Uncaught e)"
    by (simp add: fetch_page_def)
  then show "fetch_loop get u k s provider offset items sent =
      Some (Inl (Uncaught e), sent @ [page_request u k s offset])"
    by (rule fetch_loop_Raise)
qed

theorem fetch_request_failure_witness:
  "feed_down (ldrs_page 10) = Raises_ConnectionError (External ''Connection refused'')
   \<and> fetch_loop feed_down ldrs_url ''secret'' epoch ldrs_provider 10 [page_a] [ldrs_page 0] =
       Some (Inl (IngestApiError apiConnectionError (External ''Connection refused'') None),
             [ldrs_page 0, ldrs_page 10])
   \<and> fetch_data feed_down ldrs_config ldrs_provider =
       Some (Inl (IngestApiError apiConnectionError (External ''Connection refused'') None),
             [ldrs_page 0, ldrs_page 10])
   \<and> feed_slow (ldrs_page 10) = Raises (ReadTimeout ''Read timed out. (read timeout=30)'')
   \<and> fetch_loop feed_slow ldrs_url ''secret'' epoch ldrs_provider 10 [page_a] [ldrs_page 0] =
       Some (Inl (Uncaught (ReadTimeout ''Read timed out. (read timeout=30)'')),
             [ldrs_page 0, ldrs_page 10])
   \<and> fetch_data feed_slow ldrs_config ldrs_provider =
       Some (Inl (Uncaught (ReadTimeout ''Read timed out. (read timeout=30)'')),
             [ldrs_page 0, ldrs_page 10])"
proof -
  have down: "fetch_loop feed_down ldrs_url ''secret'' epoch ldrs_provider 10 [page_a]
                 [ldrs_page 0] =
       Some (Inl (IngestApiError apiConnectionError (External ''Connection refused'') None),
             [ldrs_page 0, ldrs_page 10])"
    using fetch_request_failure [of feed_down ldrs_url "''secret''" epoch 10
        "External ''Connection refused''" ldrs_provider "[page_a]" "[ldrs_page 0]"]
    by (simp add: feed_down_pages flip: ldrs_page_def)
  have slow: "fetch_loop feed_slow ldrs_url ''secret'' epoch ldrs_provider 10 [page_a]
                 [ldrs_page 0] =
       Some (Inl (Uncaught (ReadTimeout ''Read timed out. (read timeout=30)'')),
             [ldrs_page 0, ldrs_page 10])"
    using fetch_request_failure [of feed_slow ldrs_url "''secret''" epoch 10 _
        ldrs_provider "[page_a]" "[ldrs_page 0]" "ReadTimeout ''Read timed out. (read timeout=30)''"]
    by (simp add: feed_slow_pages flip: ldrs_page_def)
  show ?thesis
    using down slow
    by (simp add: feed_down_pages feed_slow_pages ldrs_walk_second_page)
qed

text \<open>
  C6 as stated fails: a read timeout is a failure of the transport, and the walk that
  meets one on its second page does not give the connection error; the
  \<^verbatim>\<open>ReadTimeout\<close> of the HTTP library leaves the walk uncaught.
\<close>

theorem fetch_read_timeout_counterexample:
  "feed_slow (ldrs_page 10) = Raises (ReadTimeout ''Read timed out. (read timeout=30)'')
   \<and> fetch_data feed_slow ldrs_config ldrs_provider =
       Some (Inl (Uncaught (ReadTimeout ''Read timed out. (read timeout=30)'')),
             [ldrs_page 0, ldrs_page 10])
   \<and> Uncaught (ReadTimeout ''Read timed out. (read timeout=30)'') \<noteq>
       IngestApiError apiConnectionError (ReadTimeout ''Read timed out. (read timeout=30)'') None"
proof -
  have "fetch_page (feed_slow (ldrs_page 10)) ldrs_provider 10 [page_a] =
          Raise (Uncaught (ReadTimeout ''Read timed out. (read timeout=30)''))"
    by (simp add: feed_slow_pages fetch_page_def)
  then have "fetch_loop feed_slow ldrs_url ''secret'' epoch ldrs_provider 10 [page_a]
               [ldrs_page 0] =
       Some (Inl (Uncaught (ReadTimeout ''Read timed out. (read timeout=30)'')),
             [ldrs_page 0] @ [page_request ldrs_url ''secret'' epoch 10])"
    unfolding ldrs_page_def by (rule fetch_loop_Raise)
  then show ?thesis
    by (simp add: feed_slow_pages ldrs_walk_second_page flip: ldrs_page_def)
qed

subsection \<open>The probe\<close>

lemma test_request:
  assumes "map_of (config_of provider) ''url'' = Some u"
    and "map_of (config_of provider) ''api_key'' = Some k"
  shows "test get provider =
     (case get (probe_request u k) of
        Raises_ConnectionError err \<Rightarrow> Inl (IngestApiError apiConnectionError err None)
      | Raises e \<Rightarrow> Inl (Uncaught e)
      | Returns response \<Rightarrow>
          if ok response then Inr ()
          else if status_code response = 404
          then Inl (IngestApiError apiNotFoundError (Exception (reason response)) (Some provider))
          else Inl (IngestApiError apiGeneralError (Exception (reason response)) (Some provider)))"
  using assms by (simp add: test_def split: outcome.splits)

lemma ldrs_probe_keys:
  "map_of (config_of ldrs_provider) ''url'' = Some ldrs_url"
  "map_of (config_of ldrs_provider) ''api_key'' = Some ''secret''"
  by (simp_all add: config_of_def ldrs_provider_def ldrs_config_def)

text \<open>
  C8 (as the code has it). The probe sends one request and classifies what comes back:
  an exception of the class \<^verbatim>\<open>requests.exceptions.ConnectionError\<close> gives the
  connection error with the exception as its cause; an exception of any other class, a
  read timeout among them, is not caught by line 66 and leaves the probe as it is; a
  response that is not ok gives the not-found error when its status is 404 and the
  general error otherwise, both with the reason phrase; an ok response lets the probe
  return.
\<close>

theorem probe_classification:
  assumes "map_of (config_of provider) ''url'' = Some u"
    and "map_of (config_of provider) ''api_key'' = Some k"
  shows "(get (probe_request u k) = Raises_ConnectionError err \<longrightarrow>
            test get provider = Inl (IngestApiError apiConnectionError err None))
       \<and> (get (probe_request u k) = Raises e \<longrightarrow> test get provider = Inl (Uncaught e))
       \<and> (get (probe_request u k) = Returns r \<and> \<not> ok r \<and> status_code r = 404 \<longrightarrow>
            test get provider =
              Inl (IngestApiError apiNotFoundError (Exception (reason r)) (Some provider)))
       \<and> (get (probe_request u k) = Returns r \<and> \<not> ok r \<and> status_code r \<noteq> 404 \<longrightarrow>
            test get provider =
              Inl (IngestApiError apiGeneralError (Exception (reason r)) (Some provider)))
       \<and> (get (probe_request u k) = Returns r \<and> ok r \<longrightarrow> test get provider = Inr ())"
  by (simp add: test_request [OF assms])

theorem probe_classification_witness:
  "map_of (config_of ldrs_provider) ''url'' = Some ldrs_url
   \<and> map_of (config_of ldrs_provider) ''api_key'' = Some ''secret''
   \<and> test (\<lambda>rq. Raises_ConnectionError (External ''Name or service not known'')) ldrs_provider =
       Inl (IngestApiError apiConnectionError (External ''Name or service not known'') None)
   \<and> test (\<lambda>rq. Raises (ReadTimeout ''Read timed out. (read timeout=30)'')) ldrs_provider =
       Inl (Uncaught (ReadTimeout ''Read timed out. (read timeout=30)''))
   \<and> test (\<lambda>rq. failed_page 404 ''Not Found'' ''no such feed'') ldrs_provider =
       Inl (IngestApiError apiNotFoundError (Exception ''Not Found'') (Some ldrs_provider))
   \<and> test (\<lambda>rq. failed_page 503 ''Service Unavailable'' ''try later'') ldrs_provider =
       Inl (IngestApiError apiGeneralError (Exception ''Service Unavailable'') (Some ldrs_provider))
   \<and> test (\<lambda>rq. ok_page page_a) ldrs_provider = Inr ()"
  using
    probe_classification [OF ldrs_probe_keys,
      of "\<lambda>rq. Raises_ConnectionError (External ''Name or service not known'')"
         "External ''Name or service not known''"]
    probe_classification [OF ldrs_probe_keys,
      of "\<lambda>rq. Raises (ReadTimeout ''Read timed out. (read timeout=30)'')" _
         "ReadTimeout ''Read timed out. (read timeout=30)''"]
    probe_classification [OF ldrs_probe_keys,
      of "\<lambda>rq. failed_page 404 ''Not Found'' ''no such feed''" _ _
         "\<lparr>ok = False, status_code = 404, reason = ''Not Found'', resp_text = ''no such feed''\<rparr>"]
    probe_classification [OF ldrs_probe_keys,
      of "\<lambda>rq. failed_page 503 ''Service Unavailable'' ''try later''" _ _
         "\<lparr>ok = False, status_code = 503, reason = ''Service Unavailable'',
           resp_text = ''try later''\<rparr>"]
    probe_classification [OF ldrs_probe_keys,
      of "\<lambda>rq. ok_page page_a" _ _
         "\<lparr>ok = True, status_code = 200, reason = ''OK'', resp_text = page_a\<rparr>"]
  by (simp add: ldrs_probe_keys failed_page_def ok_page_def)

text \<open>
  C8 as stated fails: a read timeout is a failure of the transport, and the probe that
  meets one does not give the connection error; the \<^verbatim>\<open>ReadTimeout\<close> of the HTTP
  library leaves the probe uncaught.
\<close>

theorem probe_read_timeout_counterexample:
  "test (\<lambda>rq. Raises (ReadTimeout ''Read timed out. (read timeout=30)'')) ldrs_provider =
     Inl (Uncaught (ReadTimeout ''Read timed out. (read timeout=30)''))
   \<and> Uncaught (ReadTimeout ''Read timed out. (read timeout=30)'') \<noteq>
       IngestApiError apiConnectionError (ReadTimeout ''Read timed out. (read timeout=30)'') None"
  by (simp add: test_request [OF ldrs_probe_keys])

text \<open>
  C10. The probe never gives the auth error. A response that is not ok gives the
  not-found error (status 404) or the general error (any other status); the body of
  the response is not read, so the marker of a missing API key changes nothing.
\<close>

theorem probe_never_auth_error:
  assumes "map_of (config_of provider) ''url'' = Some u"
    and "map_of (config_of provider) ''api_key'' = Some k"
    and "get (probe_request u k) = Returns r" and "\<not> ok r"
  shows "test get provider =
           Inl (IngestApiError (if status_code r = 404 then apiNotFoundError else apiGeneralError)
                  (Exception (reason r)) (Some provider))
       \<and> test (\<lambda>rq. Returns (r\<lparr>resp_text := body\<rparr>)) provider = test get provider
       \<and> (\<forall>get' provider' ex p. test get' provider' \<noteq> Inl (IngestApiError apiAuthError ex p))"
proof -
  have "test get' provider' \<noteq> Inl (IngestApiError apiAuthError ex p)" for get' provider' ex p
    by (simp add: test_def Let_def split: option.splits outcome.splits)
  moreover have "test (\<lambda>rq. Returns (r\<lparr>resp_text := body\<rparr>)) provider = test get provider"
    using assms(3,4) by (simp add: test_request [OF assms(1,2)])
  ultimately show ?thesis
    using assms(3,4) by (simp add: test_request [OF assms(1,2)])
qed

theorem probe_never_auth_error_witness:
  "map_of (config_of ldrs_provider) ''url'' = Some ldrs_url
   \<and> map_of (config_of ldrs_provider) ''api_key'' = Some ''secret''
   \<and> test (\<lambda>rq. failed_page 401 ''Unauthorized'' no_api_key) ldrs_provider =
       Inl (IngestApiError apiGeneralError (Exception ''Unauthorized'') (Some ldrs_provider))
   \<and> test (\<lambda>rq. failed_page 401 ''Unauthorized'' ''{}'') ldrs_provider =
       test (\<lambda>rq. failed_page 401 ''Unauthorized'' no_api_key) ldrs_provider"
  using
    probe_never_auth_error [OF ldrs_probe_keys,
      of "\<lambda>rq. failed_page 401 ''Unauthorized'' no_api_key"
         "\<lparr>ok = False, status_code = 401, reason = ''Unauthorized'', resp_text = no_api_key\<rparr>"
         "''{}''"]
  by (simp add: ldrs_probe_keys failed_page_def)

subsection \<open>The sync cycle\<close>

lemma parse_items_first_failure:
  assumes "\<forall>p \<in> set pre. \<exists>parser n. registry provider p = Inr parser \<and> parser p = Inr n"
    and "registry provider item = Inl ex
         \<or> (\<exists>parser. registry provider item = Inr parser \<and> parser item = Inl ex)"
  shows "parse_items registry provider (pre @ item # post) parsed_items =
           Inl (if is_Exception ex then ParserError_parseMessageError ex provider item
                else Uncaught ex)"
  using assms(1)
proof (induction pre arbitrary: parsed_items)
  case Nil
  have "parse_one registry provider item = Inl ex"
    using assms(2) by (auto simp: parse_one_def)
  then show ?case by simp
next
  case (Cons p pre)
  then obtain n where "parse_one registry provider p = Inr n"
    by (auto simp: parse_one_def)
  then show ?case using Cons by simp
qed

lemma first_failing_page:
  assumes "\<exists>p \<in> set pages. \<exists>ex. registry provider p = Inl ex
             \<or> (\<exists>parser. registry provider p = Inr parser \<and> parser p = Inl ex)"
  obtains pre item post ex where "pages = pre @ item # post"
    and "\<forall>p \<in> set pre. \<exists>parser n. registry provider p = Inr parser \<and> parser p = Inr n"
    and "registry provider item = Inl ex
         \<or> (\<exists>parser. registry provider item = Inr parser \<and> parser item = Inl ex)"
proof -
  let ?fails = "\<lambda>p. \<exists>ex. registry provider p = Inl ex
                  \<or> (\<exists>parser. registry provider p = Inr parser \<and> parser p = Inl ex)"
  from assms have "\<exists>p \<in> set pages. ?fails p" .
  from split_list_first_prop [OF this]
  obtain pre item post where split: "pages = pre @ item # post" "?fails item"
    "\<forall>p \<in> set pre. \<not> ?fails p"
    by blast
  have "\<exists>parser n. registry provider p = Inr parser \<and> parser p = Inr n" if "p \<in> set pre" for p
  proof (cases "registry provider p")
    case (Inl ex)
    then show ?thesis using split(3) that by blast
  next
    case (Inr parser)
    then show ?thesis using split(3) that by (cases "parser p") auto
  qed
  then show thesis
    using that split(1,2) by blast
qed

text \<open>
  C7 (as the code has it). When the walk returned its pages and, on some page,
  \<^verbatim>\<open>get_feed_parser\<close> or \<^verbatim>\<open>parse\<close> raises, the sync cycle fails on the first such page
  and returns no parsed item, not those of the pages before it either. When what was
  raised derives from \<^verbatim>\<open>Exception\<close> the failure is the parse error, which carries what
  was raised, the provider and the raw page; anything else (\<^verbatim>\<open>SystemExit\<close>,
  \<^verbatim>\<open>KeyboardInterrupt\<close>) is not caught by line 86 and is the failure as it is.
\<close>

theorem update_parse_failure:
  assumes "fetch_data get (config_of provider) provider = Some (Inr pages, sent)"
    and "\<exists>p \<in> set pages. \<exists>ex. registry provider p = Inl ex
           \<or> (\<exists>parser. registry provider p = Inr parser \<and> parser p = Inl ex)"
  shows "\<exists>pre item post ex.
           pages = pre @ item # post
         \<and> (\<forall>p \<in> set pre. \<exists>parser n. registry provider p = Inr parser \<and> parser p = Inr n)
         \<and> (registry provider item = Inl ex
              \<or> (\<exists>parser. registry provider item = Inr parser \<and> parser item = Inl ex))
         \<and> update get registry provider =
             Some (Inl (if is_Exception ex then ParserError_parseMessageError ex provider item
                        else Uncaught ex), sent)"
proof -
  from assms(2) obtain pre item post ex where split: "pages = pre @ item # post"
    "\<forall>p \<in> set pre. \<exists>parser n. registry provider p = Inr parser \<and> parser p = Inr n"
    "registry provider item = Inl ex
     \<or> (\<exists>parser. registry provider item = Inr parser \<and> parser item = Inl ex)"
    by (rule first_failing_page)
  have "update get registry provider = Some (parse_items registry provider pages [], sent)"
    using assms(1) by (simp add: update_def)
  also have "parse_items registry provider pages [] =
               Inl (if is_Exception ex then ParserError_parseMessageError ex provider item
                    else Uncaught ex)"
    unfolding split(1) using split(2,3) by (rule parse_items_first_failure)
  finally show ?thesis
    using split by blast
qed

lemma ldrs_config_of: "config_of ldrs_provider = ldrs_config"
  by (simp add: config_of_def ldrs_provider_def)

lemma page_b_differs: "page_a \<noteq> page_b" "page_c \<noteq> page_b"
  by (simp_all add: page_a_def page_b_def page_c_def)

theorem update_parse_failure_witness:
  "fetch_data feed15 (config_of ldrs_provider) ldrs_provider =
     Some (Inr [page_a, page_b, page_c], [ldrs_page 0, ldrs_page 10, ldrs_page 20])
   \<and> count_registry ldrs_provider page_a = Inr count_parser \<and> count_parser page_a = Inr 29
   \<and> count_registry ldrs_provider page_b = Inr count_parser
   \<and> count_parser page_b = Inl (External ''ValueError'')
   \<and> update feed15 count_registry ldrs_provider =
       Some (Inl (ParserError_parseMessageError (External ''ValueError'') ldrs_provider page_b),
             [ldrs_page 0, ldrs_page 10, ldrs_page 20])
   \<and> picky_registry ldrs_provider page_a = Inr length_parser \<and> length_parser page_a = Inr 29
   \<and> picky_registry ldrs_provider page_b = Inl (External ''no parser for this item'')
   \<and> update feed15 picky_registry ldrs_provider =
       Some (Inl (ParserError_parseMessageError (External ''no parser for this item'')
                    ldrs_provider page_b),
             [ldrs_page 0, ldrs_page 10, ldrs_page 20])"
proof -
  have walk: "fetch_data feed15 (config_of ldrs_provider) ldrs_provider =
     Some (Inr [page_a, page_b, page_c], [ldrs_page 0, ldrs_page 10, ldrs_page 20])"
    unfolding ldrs_config_of by (rule feed15_walk)
  have count: "count_registry ldrs_provider p = Inr count_parser"
    "count_parser page_a = Inr 29" "count_parser page_b = Inl (External ''ValueError'')" for p
    by (simp_all add: count_registry_def count_parser_def page_a_def page_b_def)
  have picky: "picky_registry ldrs_provider page_a = Inr length_parser"
    "length_parser page_a = Inr 29"
    "picky_registry ldrs_provider page_b = Inl (External ''no parser for this item'')"
    by (simp_all add: picky_registry_def length_parser_def page_a_def page_b_def)
  have "\<exists>p \<in> set [page_a, page_b, page_c]. \<exists>ex. count_registry ldrs_provider p = Inl ex
          \<or> (\<exists>parser. count_registry ldrs_provider p = Inr parser \<and> parser p = Inl ex)"
    using count by auto
  from update_parse_failure [where registry = count_registry, OF walk this]
  obtain item ex where
    "count_registry ldrs_provider item = Inl ex
     \<or> (\<exists>parser. count_registry ldrs_provider item = Inr parser \<and> parser item = Inl ex)"
    "update feed15 count_registry ldrs_provider =
       Some (Inl (if is_Exception ex then ParserError_parseMessageError ex ldrs_provider item
                  else Uncaught ex),
             [ldrs_page 0, ldrs_page 10, ldrs_page 20])"
    by blast
  moreover from this(1) have "item = page_b \<and> ex = External ''ValueError''"
    by (auto simp: count_registry_def count_parser_def split: if_splits)
  ultimately have by_parser: "update feed15 count_registry ldrs_provider =
       Some (Inl (ParserError_parseMessageError (External ''ValueError'') ldrs_provider page_b),
             [ldrs_page 0, ldrs_page 10, ldrs_page 20])"
    by simp
  have "\<exists>p \<in> set [page_a, page_b, page_c]. \<exists>ex. picky_registry ldrs_provider p = Inl ex
          \<or> (\<exists>parser. picky_registry ldrs_provider p = Inr parser \<and> parser p = Inl ex)"
    using picky by auto
  from update_parse_failure [where registry = picky_registry, OF walk this]
  obtain item ex where
    "picky_registry ldrs_provider item = Inl ex
     \<or> (\<exists>parser. picky_registry ldrs_provider item = Inr parser \<and> parser item = Inl ex)"
    "update feed15 picky_registry ldrs_provider =
       Some (Inl (if is_Exception ex then ParserError_parseMessageError ex ldrs_provider item
                  else Uncaught ex),
             [ldrs_page 0, ldrs_page 10, ldrs_page 20])"
    by blast
  moreover from this(1) have "item = page_b \<and> ex = External ''no parser for this item''"
    by (auto simp: picky_registry_def length_parser_def split: if_splits)
  ultimately have by_registry: "update feed15 picky_registry ldrs_provider =
       Some (Inl (ParserError_parseMessageError (External ''no parser for this item'')
                    ldrs_provider page_b),
             [ldrs_page 0, ldrs_page 10, ldrs_page 20])"
    by simp
  show ?thesis
    using walk count picky by_parser by_registry by simp
qed

text \<open>
  C7 as stated fails for a failure that does not derive from \<^verbatim>\<open>Exception\<close>: when the
  parser raises \<^verbatim>\<open>SystemExit\<close> on the second of three pages, the sync cycle fails with
  that \<^verbatim>\<open>SystemExit\<close> and not with the parse error.
\<close>

theorem update_system_exit_counterexample:
  "exit_registry ldrs_provider page_b = Inr exit_parser
   \<and> exit_parser page_b = Inl (SystemExit ''1'')
   \<and> update feed15 exit_registry ldrs_provider =
       Some (Inl (Uncaught (SystemExit ''1'')), [ldrs_page 0, ldrs_page 10, ldrs_page 20])
   \<and> Uncaught (SystemExit ''1'') \<noteq>
       ParserError_parseMessageError (SystemExit ''1'') ldrs_provider page_b"
  by (simp add: update_def ldrs_config_of feed15_walk parse_one_def exit_registry_def
      exit_parser_def page_b_differs)

end
